theory Spec2Isabelle
  imports Complex_Main
begin

section \<open>JavaScript values used by the dashboard script\<close>

text \<open>
  The script \<^verbatim>\<open>static/script.js\<close> computes with JavaScript numbers and with the
  primitive values that a property of a parsed JSON body can hold (\<open>JUndefined\<close> for a
  property that is absent); arrays and objects as values of a property are not
  represented. A number is one of the three special values or \<open>Fin r\<close>, a double
  given by the real \<open>r\<close> it denotes; the sign of zero is not represented. The
  comparisons are exact on doubles, and the arithmetic operators round their exact
  result to the nearest double.
\<close>

datatype jsnum = NaN | NegInf | Fin real | PosInf

datatype jsval = JUndefined | JNull | JBool bool | JNumber jsnum | JString string

text \<open>The relational operators \<^verbatim>\<open><\<close> and \<^verbatim>\<open>></\<close> on numbers: every comparison with
  \<open>NaN\<close> is false.\<close>

fun js_lt :: "jsnum \<Rightarrow> jsnum \<Rightarrow> bool" where
  "js_lt NaN _ = False"
| "js_lt _ NaN = False"
| "js_lt (Fin a) (Fin b) = (a < b)"
| "js_lt NegInf NegInf = False"
| "js_lt NegInf _ = True"
| "js_lt PosInf _ = False"
| "js_lt (Fin a) PosInf = True"
| "js_lt (Fin a) NegInf = False"

definition js_gt :: "jsnum \<Rightarrow> jsnum \<Rightarrow> bool" where
  "js_gt a b = js_lt b a"

text \<open>
  Rounding of a real to the nearest double (IEEE 754 binary64, ties to the even
  significand): \<open>bits n\<close> is the length of \<open>n\<close> in binary, \<open>floor_log2 x\<close> the
  binary exponent of a positive \<open>x\<close>, and the spacing of the doubles around \<open>r\<close> is
  \<open>pow2 (e - 52)\<close> for the exponent \<open>e\<close> of \<open>r\<close>, held at \<open>- 1022\<close> from below
  where the doubles are subnormal. A result of magnitude \<open>2 ^ 1024\<close> or more is an
  infinity. A literal of a JSON body is read by the same rounding.
\<close>

function bits :: "int \<Rightarrow> int" where
  "bits n = (if n \<le> 0 then 0 else 1 + bits (n div 2))"
  by pat_completeness auto
termination
  by (relation "measure nat") auto

declare bits.simps [simp del]

definition floor_log2 :: "real \<Rightarrow> int" where
  "floor_log2 x = (if 1 \<le> x then bits \<lfloor>x\<rfloor> - 1 else - bits (\<lceil>1 / x\<rceil> - 1))"

definition pow2 :: "int \<Rightarrow> real" where
  "pow2 k = (if 0 \<le> k then 2 ^ nat k else 1 / 2 ^ nat (- k))"

definition round_ties_even :: "real \<Rightarrow> int" where
  "round_ties_even x =
     (if x - of_int \<lfloor>x\<rfloor> < 1 / 2 then \<lfloor>x\<rfloor>
      else if 1 / 2 < x - of_int \<lfloor>x\<rfloor> then \<lfloor>x\<rfloor> + 1
      else if even \<lfloor>x\<rfloor> then \<lfloor>x\<rfloor> else \<lfloor>x\<rfloor> + 1)"

definition double_of :: "real \<Rightarrow> jsnum" where
  "double_of r =
     (if r = 0 then Fin 0
      else let e = max (floor_log2 \<bar>r\<bar>) (- 1022);
               q = pow2 (e - 52);
               v = of_int (round_ties_even (r / q)) * q
           in if 2 ^ 1024 \<le> \<bar>v\<bar> then (if 0 < r then PosInf else NegInf) else Fin v)"

text \<open>The arithmetic operators \<^verbatim>\<open>*\<close> and \<^verbatim>\<open>-\<close> on numbers.\<close>

fun js_mul :: "jsnum \<Rightarrow> jsnum \<Rightarrow> jsnum" where
  "js_mul NaN _ = NaN"
| "js_mul _ NaN = NaN"
| "js_mul (Fin a) (Fin b) = double_of (a * b)"
| "js_mul (Fin a) PosInf = (if a = 0 then NaN else if 0 < a then PosInf else NegInf)"
| "js_mul (Fin a) NegInf = (if a = 0 then NaN else if 0 < a then NegInf else PosInf)"
| "js_mul PosInf (Fin b) = (if b = 0 then NaN else if 0 < b then PosInf else NegInf)"
| "js_mul NegInf (Fin b) = (if b = 0 then NaN else if 0 < b then NegInf else PosInf)"
| "js_mul PosInf PosInf = PosInf"
| "js_mul PosInf NegInf = NegInf"
| "js_mul NegInf PosInf = NegInf"
| "js_mul NegInf NegInf = PosInf"

fun js_sub :: "jsnum \<Rightarrow> jsnum \<Rightarrow> jsnum" where
  "js_sub NaN _ = NaN"
| "js_sub _ NaN = NaN"
| "js_sub (Fin a) (Fin b) = double_of (a - b)"
| "js_sub (Fin a) PosInf = NegInf"
| "js_sub (Fin a) NegInf = PosInf"
| "js_sub PosInf (Fin b) = PosInf"
| "js_sub NegInf (Fin b) = NegInf"
| "js_sub PosInf PosInf = NaN"
| "js_sub PosInf NegInf = PosInf"
| "js_sub NegInf PosInf = NegInf"
| "js_sub NegInf NegInf = NaN"

text \<open>\<^verbatim>\<open>Math.round\<close>: the integer nearest to the argument, a tie going up. The result
  is exact: a double of magnitude \<open>2 ^ 52\<close> or more is an integer already.\<close>

fun Math_round :: "jsnum \<Rightarrow> jsnum" where
  "Math_round (Fin r) = Fin (of_int \<lfloor>r + 1 / 2\<rfloor>)"
| "Math_round n = n"

text \<open>Truthiness, as tested by \<^verbatim>\<open>if (x)\<close>, \<^verbatim>\<open>!x\<close> and \<^verbatim>\<open>x || y\<close>.\<close>

fun truthy :: "jsval \<Rightarrow> bool" where
  "truthy JUndefined = False"
| "truthy JNull = False"
| "truthy (JBool b) = b"
| "truthy (JNumber NaN) = False"
| "truthy (JNumber (Fin r)) = (r \<noteq> 0)"
| "truthy (JNumber _) = True"
| "truthy (JString s) = (s \<noteq> [])"

definition js_or :: "jsval \<Rightarrow> jsval \<Rightarrow> jsval" where
  "js_or a b = (if truthy a then a else b)"

text \<open>
  Two conversions of the language are not computed here and are taken from the runtime:
  reading a string as a number (\<^verbatim>\<open>Number(s)\<close>, also applied when a string is
  multiplied), and printing a number that is not an integer of magnitude up to
  \<open>2 ^ 53\<close> (its shortest decimal or exponent form depends on the double).
\<close>

record js_runtime =
  StringToNumber :: "string \<Rightarrow> jsnum"
  NumberToString_other :: "real \<Rightarrow> string"

text \<open>The decimal digits of an integer, as \<^verbatim>\<open>Number.prototype.toString\<close> prints
  one whose magnitude is at most \<open>2 ^ 53\<close>.\<close>

definition digit_char :: "int \<Rightarrow> char" where
  "digit_char d = ''0123456789'' ! nat d"

function decimal :: "int \<Rightarrow> string \<Rightarrow> string" where
  "decimal n acc =
     (if n < 10 then digit_char n # acc
      else decimal (n div 10) (digit_char (n mod 10) # acc))"
  by pat_completeness auto
termination
  by (relation "measure (\<lambda>(n, acc). nat n)") auto

declare decimal.simps [simp del]

definition integer_string :: "int \<Rightarrow> string" where
  "integer_string i = (if 0 \<le> i then decimal i [] else CHR ''-'' # decimal (- i) [])"

fun NumberToString :: "js_runtime \<Rightarrow> jsnum \<Rightarrow> string" where
  "NumberToString rt NaN = ''NaN''"
| "NumberToString rt PosInf = ''Infinity''"
| "NumberToString rt NegInf = ''-Infinity''"
| "NumberToString rt (Fin r) =
     (if r = of_int \<lfloor>r\<rfloor> \<and> \<bar>r\<bar> \<le> 2 ^ 53 then integer_string \<lfloor>r\<rfloor>
      else NumberToString_other rt r)"

fun ToNumber :: "js_runtime \<Rightarrow> jsval \<Rightarrow> jsnum" where
  "ToNumber rt JUndefined = NaN"
| "ToNumber rt JNull = Fin 0"
| "ToNumber rt (JBool b) = Fin (if b then 1 else 0)"
| "ToNumber rt (JNumber n) = n"
| "ToNumber rt (JString s) = StringToNumber rt s"

fun ToString :: "js_runtime \<Rightarrow> jsval \<Rightarrow> string" where
  "ToString rt JUndefined = ''undefined''"
| "ToString rt JNull = ''null''"
| "ToString rt (JBool b) = (if b then ''true'' else ''false'')"
| "ToString rt (JNumber n) = NumberToString rt n"
| "ToString rt (JString s) = s"

section \<open>The page: form fields, charts and what the script emits\<close>

text \<open>
  What the script does to the outside is recorded in order: a modal \<^verbatim>\<open>alert\<close>, a
  \<^verbatim>\<open>console.log\<close> with its two arguments, the POST of a payload to \<^verbatim>\<open>/predict\<close>
  and the GET of \<^verbatim>\<open>/logs\<close>.
\<close>

datatype event =
    Alert string
  | Console_log string string
  | Fetch_predict "(string \<times> jsval) list"
  | Fetch_logs

text \<open>
  The state holds, for every element id, the text and the border style of the input with
  that id, the text of the element \<^verbatim>\<open>donutCenter\<close> (\<open>None\<close> when the lookup of that
  element yields nothing, the case \<^verbatim>\<open>setDonutCenter\<close> guards), the values assigned to
  the text of \<^verbatim>\<open>errCode\<close> and \<^verbatim>\<open>errDesc\<close>, and the data of the three charts.
  The elements that the script dereferences without a guard are taken to exist, and the
  chart handles to be bound. Styling options of the charts are left out; a call of
  \<^verbatim>\<open>update()\<close> redraws from the data and changes none of it.
\<close>

record page =
  input_value :: "string \<Rightarrow> string"
  input_border :: "string \<Rightarrow> string"
  donutCenter :: "string option"
  errCode :: jsval
  errDesc :: jsval
  donut_data :: "jsnum list"
  bar_labels :: "string list"
  bar_data :: "jsval list"
  bar_backgroundColor :: "string list"
  logs_labels :: "jsval list"
  logs_data :: "jsnum list"
  events :: "event list"

definition emit :: "event \<Rightarrow> page \<Rightarrow> page" where
  "emit e s = s\<lparr>events := events s @ [e]\<rparr>"

text \<open>
  An awaited request either throws inside the \<^verbatim>\<open>try\<close> block (the fetch is rejected,
  the body is not JSON, or the parsed body has not the shape whose properties are read),
  with the thrown value printed as a string, or yields the parsed body.
\<close>

datatype 'a response = Rejected string | Resolved 'a

record predict_data =
  data_error :: jsval
  data_probability :: jsval
  data_error_code :: jsval
  data_error_description :: jsval

record log_entry =
  l_timestamp :: jsval
  l_probability :: jsval

section \<open>The script\<close>

text \<open>The table \<^verbatim>\<open>ranges\<close>, in the order of its keys.\<close>

definition ranges :: "(string \<times> real \<times> real) list" where
  "ranges =
     [(''temp'', 25, 45),
      (''pressure'', 3, 5),
      (''flow'', 140, 180),
      (''vibration'', 0, 1),
      (''fillheight'', 245, 255),
      (''power'', 3, 5),
      (''co2'', 380, 450),
      (''humidity'', 45, 60)]"

text \<open>\<^verbatim>\<open>Object.keys(ranges)\<close> and the lookup \<^verbatim>\<open>ranges[key]\<close>.\<close>

definition keys :: "string list" where
  "keys = map fst ranges"

definition range_of :: "string \<Rightarrow> (real \<times> real) option" where
  "range_of key = map_of ranges key"

text \<open>The property read \<^verbatim>\<open>values[key]\<close> on an object given by its entries, each key
  held once at most; a key that is absent reads as \<open>undefined\<close>.\<close>

definition js_get :: "(string \<times> jsval) list \<Rightarrow> string \<Rightarrow> jsval" where
  "js_get obj key = (case map_of obj key of None \<Rightarrow> JUndefined | Some v \<Rightarrow> v)"

definition setDonutCenter :: "string \<Rightarrow> page \<Rightarrow> page" where
  "setDonutCenter text s =
     (case donutCenter s of None \<Rightarrow> s | Some _ \<Rightarrow> s\<lparr>donutCenter := Some text\<rparr>)"

text \<open>The colour that the callback of \<^verbatim>\<open>keys.map\<close> in \<^verbatim>\<open>updateBarChart\<close> returns. The
  callback runs on the keys of \<open>ranges\<close> only, where the lookup succeeds.\<close>

definition bar_color :: "js_runtime \<Rightarrow> (string \<times> jsval) list \<Rightarrow> string \<Rightarrow> string" where
  "bar_color rt values key =
     (let v = ToNumber rt (js_get values key);
          (min, max) = the (range_of key)
      in if js_lt v (Fin min) \<or> js_gt v (Fin max) then ''#e63946'' else ''#29c37a'')"

definition updateBarChart :: "js_runtime \<Rightarrow> (string \<times> jsval) list \<Rightarrow> page \<Rightarrow> page" where
  "updateBarChart rt values s =
     (let colors = map (bar_color rt values) keys
      in s\<lparr>bar_data := map (js_get values) keys, bar_backgroundColor := colors\<rparr>)"

definition loadLogsChart :: "js_runtime \<Rightarrow> log_entry list response \<Rightarrow> page \<Rightarrow> page" where
  "loadLogsChart rt logs_resp s =
     (let s1 = emit Fetch_logs s
      in case logs_resp of
           Rejected err \<Rightarrow> emit (Console_log ''Log fetch error:'' err) s1
         | Resolved logs \<Rightarrow>
             s1\<lparr>logs_labels := map l_timestamp logs,
                logs_data :=
                  map (\<lambda>l. Math_round (js_mul (ToNumber rt (l_probability l)) (Fin 100))) logs\<rparr>)"

text \<open>The eight input ids of \<^verbatim>\<open>onPredict\<close>.\<close>

definition ids :: "string list" where
  "ids = [''temp'', ''pressure'', ''flow'', ''vibration'', ''fillheight'', ''power'',
          ''co2'', ''humidity'']"

text \<open>The warning sign that opens the text of the first alert, in UTF-8.\<close>

definition warning_sign :: string where
  "warning_sign = [CHR 0xE2, CHR 0x9A, CHR 0xA0]"

text \<open>
  One run of \<^verbatim>\<open>onPredict\<close> to its end, with the outcome of its \<^verbatim>\<open>/predict\<close> request
  and of the \<^verbatim>\<open>/logs\<close> request that \<^verbatim>\<open>loadLogsChart\<close> starts at the end of a
  successful run. The two \<^verbatim>\<open>forEach\<close> loops over the ids are folds.
\<close>

definition onPredict ::
  "js_runtime \<Rightarrow> predict_data response \<Rightarrow> log_entry list response \<Rightarrow> page \<Rightarrow> page" where
  "onPredict rt predict_resp logs_resp s =
     (let s1 = s\<lparr>input_border := fold (\<lambda>id b. b(id := ''1px solid #ccc'')) ids (input_border s)\<rparr>;
          (b2, allFilled) =
            fold (\<lambda>id (b, ok). if input_value s1 id = [] then (b(id := ''2px solid red''), False)
                                else (b, ok))
              ids (input_border s1, True);
          s2 = s1\<lparr>input_border := b2\<rparr>
      in if \<not> allFilled then emit (Alert (warning_sign @ '' Please fill all fields.'')) s2
         else
           let payload = map (\<lambda>id. (id, JNumber (StringToNumber rt (input_value s2 id)))) ids;
               s3 = emit (Fetch_predict payload) s2
           in case predict_resp of
                Rejected err \<Rightarrow> emit (Alert (''Communication Error: '' @ err)) s3
              | Resolved data \<Rightarrow>
                  if truthy (data_error data)
                  then emit (Alert (''Server Error: '' @ ToString rt (data_error data))) s3
                  else
                    let probPercent =
                          Math_round (js_mul (ToNumber rt (js_or (data_probability data)
                                                             (JNumber (Fin 0)))) (Fin 100));
                        s4 = s3\<lparr>donut_data := [js_sub (Fin 100) probPercent, probPercent]\<rparr>;
                        s5 = setDonutCenter (NumberToString rt probPercent @ ''%'') s4;
                        s6 = s5\<lparr>errCode := data_error_code data,
                                errDesc := data_error_description data\<rparr>;
                        s7 = updateBarChart rt payload s6
                    in loadLogsChart rt logs_resp s7)"

text \<open>
  The handler of the \<^verbatim>\<open>load\<close> event: it creates the three charts with their first
  data, writes the centre text and loads the logs.
\<close>

definition onLoad :: "js_runtime \<Rightarrow> log_entry list response \<Rightarrow> page \<Rightarrow> page" where
  "onLoad rt logs_resp s =
     (let s1 = s\<lparr>logs_labels := [], logs_data := []\<rparr>;
          s2 = s1\<lparr>donut_data := [Fin 100, Fin 0]\<rparr>;
          s3 = setDonutCenter ''0%'' s2;
          s4 = s3\<lparr>bar_labels := keys,
                  bar_data := map (\<lambda>_. JNumber (Fin 0)) keys,
                  bar_backgroundColor := map (\<lambda>_. ''#29c37a'') keys\<rparr>
      in loadLogsChart rt logs_resp s4)"

section \<open>Notions used to state the properties\<close>

text \<open>The border of every field once the two loops of \<^verbatim>\<open>onPredict\<close> have run, the
  payload it builds, whether all eight fields are filled, and the percentage it derives
  from a response.\<close>

definition validated_border :: "page \<Rightarrow> string \<Rightarrow> string" where
  "validated_border s =
     (\<lambda>x. if x \<in> set ids
          then (if input_value s x = [] then ''2px solid red'' else ''1px solid #ccc'')
          else input_border s x)"

definition payload_of :: "js_runtime \<Rightarrow> page \<Rightarrow> (string \<times> jsval) list" where
  "payload_of rt s = map (\<lambda>id. (id, JNumber (StringToNumber rt (input_value s id)))) ids"

definition all_filled :: "page \<Rightarrow> bool" where
  "all_filled s = list_all (\<lambda>id. input_value s id \<noteq> []) ids"

definition probPercent_of :: "js_runtime \<Rightarrow> predict_data \<Rightarrow> jsnum" where
  "probPercent_of rt d =
     Math_round (js_mul (ToNumber rt (js_or (data_probability d) (JNumber (Fin 0)))) (Fin 100))"

text \<open>A value strictly outside the range from \<open>lo\<close> to \<open>hi\<close>, and a value within it,
  the ends included. \<open>NaN\<close> is neither.\<close>

fun strictly_outside :: "jsnum \<Rightarrow> real \<Rightarrow> real \<Rightarrow> bool" where
  "strictly_outside (Fin r) lo hi = (r < lo \<or> hi < r)"
| "strictly_outside NaN lo hi = False"
| "strictly_outside NegInf lo hi = True"
| "strictly_outside PosInf lo hi = True"

fun within_bounds :: "jsnum \<Rightarrow> real \<Rightarrow> real \<Rightarrow> bool" where
  "within_bounds (Fin r) lo hi = (lo \<le> r \<and> r \<le> hi)"
| "within_bounds n lo hi = False"

text \<open>A data set of exactly two numbers whose sum is 100.\<close>

fun sums_to_100 :: "jsnum list \<Rightarrow> bool" where
  "sums_to_100 [Fin a, Fin b] = (a + b = 100)"
| "sums_to_100 xs = False"

fun is_Fin :: "jsnum \<Rightarrow> bool" where
  "is_Fin (Fin r) = True"
| "is_Fin n = False"

text \<open>A percentage small enough for its difference from 100 to be a double.\<close>

fun small_percent :: "jsnum \<Rightarrow> bool" where
  "small_percent (Fin r) = (\<bar>r\<bar> < 2 ^ 53 - 100)"
| "small_percent n = False"

fun is_Alert :: "event \<Rightarrow> bool" where
  "is_Alert (Alert m) = True"
| "is_Alert e = False"

subsection \<open>Concrete inputs for the examples\<close>

text \<open>A runtime that reads a string of decimal digits as the double nearest to its
  value and any other string as \<open>NaN\<close>; the examples print integers only.\<close>

definition digits_runtime :: js_runtime where
  "digits_runtime =
     \<lparr>StringToNumber =
        (\<lambda>s. if list_all (\<lambda>c. c \<in> set ''0123456789'') s
             then double_of (of_nat (foldl (\<lambda>n c. 10 * n + (of_char c - 48)) 0 s))
             else NaN),
      NumberToString_other = (\<lambda>r. [])\<rparr>"

definition fields :: "(string \<times> string) list \<Rightarrow> string \<Rightarrow> string" where
  "fields xs k = (case map_of xs k of None \<Rightarrow> [] | Some v \<Rightarrow> v)"

text \<open>A page after loading, with all eight fields filled, the field \<^verbatim>\<open>temp\<close> still
  marked from an earlier attempt and one log entry drawn.\<close>

definition filled_page :: page where
  "filled_page =
     \<lparr>input_value =
        fields [(''temp'', ''30''), (''pressure'', ''4''), (''flow'', ''150''),
                (''vibration'', ''2''), (''fillheight'', ''250''), (''power'', ''4''),
                (''co2'', ''abc''), (''humidity'', ''50'')],
      input_border = fields [(''temp'', ''2px solid red'')],
      donutCenter = Some ''0%'',
      errCode = JString [],
      errDesc = JString [],
      donut_data = [Fin 100, Fin 0],
      bar_labels = keys,
      bar_data = map (\<lambda>_. JNumber (Fin 0)) keys,
      bar_backgroundColor = map (\<lambda>_. ''#29c37a'') keys,
      logs_labels = [JString ''t0''],
      logs_data = [Fin 7],
      events = []\<rparr>"

text \<open>The same page with the fields \<^verbatim>\<open>pressure\<close> and \<^verbatim>\<open>humidity\<close> empty.\<close>

definition gapped_page :: page where
  "gapped_page =
     filled_page
       \<lparr>input_value :=
          fields [(''temp'', ''30''), (''flow'', ''150''), (''vibration'', ''2''),
                  (''fillheight'', ''250''), (''power'', ''4''), (''co2'', ''400'')]\<rparr>"

definition example_values :: "(string \<times> jsval) list" where
  "example_values =
     [(''temp'', JNumber (Fin 45)), (''pressure'', JNumber (Fin 4)),
      (''flow'', JNumber (Fin 150)), (''vibration'', JNumber (Fin 2)),
      (''fillheight'', JNumber (Fin 250)), (''power'', JNumber (Fin 4)),
      (''co2'', JNumber NaN), (''humidity'', JNumber (Fin 50))]"

definition example_logs :: "log_entry list" where
  "example_logs =
     [\<lparr>l_timestamp = JString ''t1'', l_probability = JNumber (double_of (1 / 10))\<rparr>,
      \<lparr>l_timestamp = JString ''t2'', l_probability = JNumber (double_of (5 / 10))\<rparr>]"

definition example_data :: "jsval \<Rightarrow> jsval \<Rightarrow> predict_data" where
  "example_data e p =
     \<lparr>data_error = e, data_probability = p,
      data_error_code = JString ''E42'', data_error_description = JString ''Overheating''\<rparr>"

section \<open>Facts about the loops and the paths of \<open>onPredict\<close>\<close>

lemma fold_reset:
  "fold (\<lambda>id b. b(id := c)) xs b = (\<lambda>x. if x \<in> set xs then c else b x)"
  by (induction xs arbitrary: b) (auto simp: fun_eq_iff)

lemma fold_check:
  "fold (\<lambda>id (b, ok). if v id = [] then (b(id := c), False) else (b, ok)) xs (b, ok) =
     ((\<lambda>x. if x \<in> set xs \<and> v x = [] then c else b x), ok \<and> list_all (\<lambda>x. v x \<noteq> []) xs)"
  by (induction xs arbitrary: b ok) (auto simp: fun_eq_iff)

lemma validation_folds:
  "fold (\<lambda>id (b, ok). if input_value s id = [] then (b(id := ''2px solid red''), False) else (b, ok))
      ids (fold (\<lambda>id b. b(id := ''1px solid #ccc'')) ids (input_border s), True) =
   (validated_border s, all_filled s)"
  by (simp add: fold_check fold_reset validated_border_def all_filled_def fun_eq_iff)

lemma onPredict_invalid:
  "\<not> all_filled s \<Longrightarrow>
   onPredict rt pr lr s =
     emit (Alert (warning_sign @ '' Please fill all fields.''))
       (s\<lparr>input_border := validated_border s\<rparr>)"
  by (simp add: onPredict_def validation_folds)

lemma onPredict_rejected:
  "all_filled s \<Longrightarrow>
   onPredict rt (Rejected err) lr s =
     emit (Alert (''Communication Error: '' @ err))
       (emit (Fetch_predict (payload_of rt s)) (s\<lparr>input_border := validated_border s\<rparr>))"
  by (simp add: onPredict_def validation_folds payload_of_def)

lemma onPredict_server_error:
  "all_filled s \<Longrightarrow> truthy (data_error d) \<Longrightarrow>
   onPredict rt (Resolved d) lr s =
     emit (Alert (''Server Error: '' @ ToString rt (data_error d)))
       (emit (Fetch_predict (payload_of rt s)) (s\<lparr>input_border := validated_border s\<rparr>))"
  by (simp add: onPredict_def validation_folds payload_of_def)

lemma onPredict_success:
  "all_filled s \<Longrightarrow> \<not> truthy (data_error d) \<Longrightarrow>
   onPredict rt (Resolved d) lr s =
     loadLogsChart rt lr
       (updateBarChart rt (payload_of rt s)
         ((setDonutCenter (NumberToString rt (probPercent_of rt d) @ ''%'')
            ((emit (Fetch_predict (payload_of rt s)) (s\<lparr>input_border := validated_border s\<rparr>))
               \<lparr>donut_data := [js_sub (Fin 100) (probPercent_of rt d), probPercent_of rt d]\<rparr>))
          \<lparr>errCode := data_error_code d, errDesc := data_error_description d\<rparr>))"
  by (simp add: onPredict_def validation_folds payload_of_def probPercent_of_def Let_def)

text \<open>What the helpers leave alone.\<close>

lemma loadLogsChart_keeps:
  "donut_data (loadLogsChart rt lr s) = donut_data s"
  "donutCenter (loadLogsChart rt lr s) = donutCenter s"
  "input_border (loadLogsChart rt lr s) = input_border s"
  "bar_data (loadLogsChart rt lr s) = bar_data s"
  "bar_backgroundColor (loadLogsChart rt lr s) = bar_backgroundColor s"
  by (simp_all add: loadLogsChart_def emit_def Let_def split: response.splits)

lemma updateBarChart_keeps:
  "donut_data (updateBarChart rt vs s) = donut_data s"
  "donutCenter (updateBarChart rt vs s) = donutCenter s"
  "input_border (updateBarChart rt vs s) = input_border s"
  by (simp_all add: updateBarChart_def)

lemma setDonutCenter_fields:
  "donut_data (setDonutCenter t s) = donut_data s"
  "donutCenter (setDonutCenter t s) = map_option (\<lambda>_. t) (donutCenter s)"
  "input_border (setDonutCenter t s) = input_border s"
  by (simp_all add: setDonutCenter_def split: option.splits)

lemma onPredict_success_donut:
  assumes "all_filled s" and "\<not> truthy (data_error d)"
  shows "donut_data (onPredict rt (Resolved d) lr s) =
           [js_sub (Fin 100) (probPercent_of rt d), probPercent_of rt d]"
    and "donutCenter (onPredict rt (Resolved d) lr s) =
           map_option (\<lambda>_. NumberToString rt (probPercent_of rt d) @ ''%'') (donutCenter s)"
  using assms
  by (simp_all add: onPredict_success loadLogsChart_keeps updateBarChart_keeps
      setDonutCenter_fields emit_def)

lemma input_border_onPredict:
  "input_border (onPredict rt pr lr s) = validated_border s"
proof (cases "all_filled s")
  case False
  then show ?thesis by (simp add: onPredict_invalid emit_def)
next
  case filled: True
  show ?thesis
  proof (cases pr)
    case (Rejected err)
    with filled show ?thesis by (simp add: onPredict_rejected emit_def)
  next
    case (Resolved d)
    with filled show ?thesis
      by (cases "truthy (data_error d)")
        (simp_all add: onPredict_server_error onPredict_success loadLogsChart_keeps
          updateBarChart_keeps setDonutCenter_fields emit_def)
  qed
qed

lemma distinct_keys: "distinct (map fst ranges)"
  by (simp add: ranges_def)

lemma range_of_nth:
  "i < length ranges \<Longrightarrow> ranges ! i = (key, lo, hi) \<Longrightarrow> range_of key = Some (lo, hi)"
  unfolding range_of_def using distinct_keys
  by (metis map_of_eq_Some_iff nth_mem)

lemma bar_color_nth:
  assumes "i < length ranges" and "ranges ! i = (key, lo, hi)"
  shows "bar_backgroundColor (updateBarChart rt values s) ! i =
           (if js_lt (ToNumber rt (js_get values key)) (Fin lo)
               \<or> js_gt (ToNumber rt (js_get values key)) (Fin hi)
            then ''#e63946'' else ''#29c37a'')"
proof -
  have "keys ! i = key"
    using assms by (simp add: keys_def)
  moreover have "range_of key = Some (lo, hi)"
    using assms by (rule range_of_nth)
  ultimately show ?thesis
    using assms(1) by (simp add: updateBarChart_def bar_color_def keys_def)
qed

section \<open>Facts about the rounding to a double\<close>

lemmas double_eval =
  double_of_def floor_log2_def pow2_def round_ties_even_def bits.simps Let_def

lemma bits_nonneg: "0 \<le> bits n"
  by (induction n rule: bits.induct) (simp add: bits.simps)

lemma bits_le: "n < 2 ^ k \<Longrightarrow> bits n \<le> int k"
proof (induction k arbitrary: n)
  case 0
  then show ?case by (simp add: bits.simps)
next
  case (Suc k)
  show ?case
  proof (cases "n \<le> 0")
    case True
    then show ?thesis by (simp add: bits.simps)
  next
    case False
    from Suc.prems have "n div 2 < 2 ^ k" by simp
    then have "bits (n div 2) \<le> int k" by (rule Suc.IH)
    with False show ?thesis by (simp add: bits.simps [of n])
  qed
qed

lemma floor_log2_le_52:
  assumes "0 < x" and "x < 2 ^ 53"
  shows "floor_log2 x \<le> 52"
proof (cases "1 \<le> x")
  case True
  have "\<lfloor>x\<rfloor> < 2 ^ 53"
    using assms(2) by (simp add: floor_less_iff)
  then have "bits \<lfloor>x\<rfloor> \<le> int 53" by (rule bits_le)
  with True show ?thesis by (simp add: floor_log2_def)
next
  case False
  then show ?thesis
    using bits_nonneg [of "\<lceil>1 / x\<rceil> - 1"] by (simp add: floor_log2_def)
qed

text \<open>\<open>floor_log2\<close> is the binary exponent: a positive \<open>x\<close> lies from
  \<open>pow2 (floor_log2 x)\<close> up to the next power of two.\<close>

lemma bits_bounds: "0 < n \<Longrightarrow> 2 ^ nat (bits n - 1) \<le> n \<and> n < 2 ^ nat (bits n)"
proof (induction n rule: bits.induct)
  case (1 n)
  show ?case
  proof (cases "n = 1")
    case True
    then show ?thesis by (simp add: bits.simps)
  next
    case False
    with "1.prems" have half: "0 < n div 2" by simp
    define b where "b = bits (n div 2)"
    from half "1.prems" have ih: "2 ^ nat (b - 1) \<le> n div 2" "n div 2 < 2 ^ nat b"
      using "1.IH" by (simp_all add: b_def)
    have bpos: "1 \<le> b"
      using half by (simp add: b_def bits.simps [of "n div 2"] bits_nonneg)
    have bn: "bits n = 1 + b"
      using "1.prems" by (simp add: b_def bits.simps [of n])
    have e1: "nat (b + 1 - 1) = Suc (nat (b - 1))" and e2: "nat (1 + b) = Suc (nat b)"
      using bpos by simp_all
    have "2 * 2 ^ nat (b - 1) \<le> n" using ih(1) by linarith
    moreover have "n < 2 * 2 ^ nat b" using ih(2) by linarith
    ultimately show ?thesis
      using e1 e2 by (simp add: bn)
  qed
qed

lemma floor_log2_correct:
  assumes "0 < x"
  shows "pow2 (floor_log2 x) \<le> x \<and> x < pow2 (floor_log2 x + 1)"
proof (cases "1 \<le> x")
  case True
  define n where "n = \<lfloor>x\<rfloor>"
  have npos: "0 < n" using True by (simp add: n_def)
  have nb: "2 ^ nat (bits n - 1) \<le> n" "n < 2 ^ nat (bits n)"
    using bits_bounds [OF npos] by simp_all
  have b1: "1 \<le> bits n"
    using npos by (simp add: bits.simps [of n] bits_nonneg)
  have fl: "floor_log2 x = bits n - 1"
    using True by (simp add: floor_log2_def n_def)
  have "real_of_int (2 ^ nat (bits n - 1)) \<le> of_int n"
    using nb(1) by (simp only: of_int_le_iff)
  also have "of_int n \<le> x" by (simp add: n_def)
  finally have lo: "pow2 (bits n - 1) \<le> x"
    using b1 by (simp add: pow2_def)
  have "n + 1 \<le> 2 ^ nat (bits n)" using nb(2) by simp
  then have "real_of_int (n + 1) \<le> of_int (2 ^ nat (bits n))"
    by (simp only: of_int_le_iff)
  moreover have "x < of_int (n + 1)" by (simp add: n_def)
  ultimately have hi: "x < pow2 (bits n)"
    using b1 by (simp add: pow2_def)
  show ?thesis using lo hi by (simp add: fl)
next
  case False
  define m where "m = \<lceil>1 / x\<rceil>"
  define c where "c = bits (m - 1)"
  have z: "1 < 1 / x" using assms False by simp
  then have m2: "2 \<le> m" by (simp add: m_def le_ceiling_iff)
  then have mpos: "0 < m - 1" by simp
  have cb: "2 ^ nat (c - 1) \<le> m - 1" "m - 1 < 2 ^ nat c"
    using bits_bounds [OF mpos] by (simp_all add: c_def)
  have c1: "1 \<le> c"
    using mpos by (simp add: c_def bits.simps [of "m - 1"] bits_nonneg)
  have fl: "floor_log2 x = - c"
    using False by (simp add: floor_log2_def m_def c_def)
  have "m \<le> 2 ^ nat c" using cb(2) by simp
  then have "real_of_int m \<le> 2 ^ nat c"
    by (metis of_int_le_iff of_int_numeral of_int_power)
  moreover have "1 / x \<le> of_int m" by (simp add: m_def)
  ultimately have "1 / x \<le> 2 ^ nat c" by linarith
  then have lo: "1 / 2 ^ nat c \<le> x"
    using assms by (simp add: field_simps)
  have "2 ^ nat (c - 1) \<le> real_of_int (m - 1)"
    using cb(1) by (metis of_int_le_iff of_int_numeral of_int_power)
  moreover have "of_int (m - 1) < 1 / x"
    unfolding m_def by linarith
  ultimately have "2 ^ nat (c - 1) < 1 / x" by linarith
  then have hi: "x < 1 / 2 ^ nat (c - 1)"
    using assms by (simp add: field_simps)
  have p1: "pow2 (- c) = 1 / 2 ^ nat c"
    using c1 by (simp add: pow2_def)
  have p2: "pow2 (1 - c) = 1 / 2 ^ nat (c - 1)"
    using c1 by (cases "c = 1") (simp_all add: pow2_def)
  show ?thesis using lo hi by (simp add: fl p1 p2)
qed

lemma round_ties_even_ge: "of_int m \<le> x \<Longrightarrow> m \<le> round_ties_even x"
proof -
  assume "of_int m \<le> x"
  then have "m \<le> \<lfloor>x\<rfloor>" by (simp add: le_floor_iff)
  then show ?thesis by (simp add: round_ties_even_def)
qed

lemma round_ties_even_le: "x \<le> of_int m \<Longrightarrow> round_ties_even x \<le> m"
proof (cases "x = of_int \<lfloor>x\<rfloor>")
  case True
  assume "x \<le> of_int m"
  then have "\<lfloor>x\<rfloor> \<le> m" by (simp add: floor_le_iff)
  with True show ?thesis by (simp add: round_ties_even_def)
next
  case False
  assume le: "x \<le> of_int m"
  have "of_int \<lfloor>x\<rfloor> < x"
    using False of_int_floor_le [of x] by (auto simp only: order_le_less)
  with le have "of_int \<lfloor>x\<rfloor> < (of_int m :: real)" by linarith
  then have "\<lfloor>x\<rfloor> + 1 \<le> m" by simp
  then show ?thesis by (simp add: round_ties_even_def)
qed

text \<open>Rounding stays between two integers below \<open>2 ^ 53\<close> in magnitude that enclose
  the argument; such an integer is a double.\<close>

lemma double_of_between:
  assumes lo: "of_int a \<le> x" and hi: "x \<le> of_int b"
    and a: "\<bar>a\<bar> < 2 ^ 53" and b: "\<bar>b\<bar> < 2 ^ 53"
  shows "\<exists>y. double_of x = Fin y \<and> of_int a \<le> y \<and> y \<le> of_int b"
proof (cases "x = 0")
  case True
  with lo hi show ?thesis by (simp add: double_of_def)
next
  case False
  define e where "e = max (floor_log2 \<bar>x\<bar>) (- 1022)"
  define k where "k = nat (52 - e)"
  define n where "n = round_ties_even (x * 2 ^ k)"
  have ra: "\<bar>real_of_int a\<bar> < 2 ^ 53" and rb: "\<bar>real_of_int b\<bar> < 2 ^ 53"
    using a b by (metis of_int_abs of_int_less_iff of_int_numeral of_int_power)+
  have "\<bar>x\<bar> < 2 ^ 53"
    using lo hi ra rb by linarith
  with False have "floor_log2 \<bar>x\<bar> \<le> 52"
    by (intro floor_log2_le_52) simp_all
  then have e52: "e \<le> 52" by (simp add: e_def)
  then have q: "pow2 (e - 52) = 1 / 2 ^ k"
    by (cases "e = 52") (simp_all add: pow2_def k_def)
  have "of_int (a * 2 ^ k) \<le> x * 2 ^ k" using lo by simp
  then have n_lo: "a * 2 ^ k \<le> n" unfolding n_def by (rule round_ties_even_ge)
  have "x * 2 ^ k \<le> of_int (b * 2 ^ k)" using hi by simp
  then have n_hi: "n \<le> b * 2 ^ k" unfolding n_def by (rule round_ties_even_le)
  define y :: real where "y = of_int n / 2 ^ k"
  have "real_of_int (a * 2 ^ k) \<le> of_int n" using n_lo by (simp only: of_int_le_iff)
  then have y_lo: "of_int a \<le> y" by (simp add: y_def field_simps)
  have "real_of_int n \<le> of_int (b * 2 ^ k)" using n_hi by (simp only: of_int_le_iff)
  then have y_hi: "y \<le> of_int b" by (simp add: y_def field_simps)
  have "\<bar>y\<bar> < 2 ^ 53" using y_lo y_hi ra rb by linarith
  also have "(2::real) ^ 53 \<le> 2 ^ 1024" by simp
  finally have small: "\<not> 2 ^ 1024 \<le> \<bar>y\<bar>" by simp
  have "double_of x = Fin y"
    using False small
    by (simp add: double_of_def Let_def e_def [symmetric] q n_def [symmetric] y_def)
  with y_lo y_hi show ?thesis by blast
qed

lemma double_of_int: "\<bar>n\<bar> < 2 ^ 53 \<Longrightarrow> double_of (of_int n) = Fin (of_int n)"
  using double_of_between [of n "of_int n" n] by auto

lemma double_of_numeral:
  "\<bar>numeral w :: int\<bar> < 2 ^ 53 \<Longrightarrow> double_of (numeral w) = Fin (numeral w)"
  using double_of_int [of "numeral w"] by simp

lemma pow2_pos: "0 < pow2 k"
  by (simp add: pow2_def)

lemma round_ties_even_near: "\<bar>of_int (round_ties_even t) - t\<bar> \<le> 1 / 2"
proof -
  have "of_int \<lfloor>t\<rfloor> \<le> t" and "t < of_int \<lfloor>t\<rfloor> + 1"
    by linarith+
  then show ?thesis
    by (auto simp: round_ties_even_def)
qed

text \<open>The double that the rounding yields is no further from the argument than half
  the spacing of the doubles there.\<close>

lemma double_of_near:
  assumes "double_of x = Fin y"
  shows "\<bar>y - x\<bar> \<le> pow2 (max (floor_log2 \<bar>x\<bar>) (- 1022) - 52) / 2"
proof (cases "x = 0")
  case True
  with assms have "y = 0" by (simp add: double_of_def)
  with True show ?thesis
    using pow2_pos [of "max (floor_log2 \<bar>x\<bar>) (- 1022) - 52"] by simp
next
  case False
  define q where "q = pow2 (max (floor_log2 \<bar>x\<bar>) (- 1022) - 52)"
  have qpos: "0 < q" by (simp add: q_def pow2_pos)
  from assms False have y: "y = of_int (round_ties_even (x / q)) * q"
    by (simp add: double_of_def Let_def q_def [symmetric] split: if_splits)
  have "y - x = (of_int (round_ties_even (x / q)) - x / q) * q"
    using qpos by (simp add: y field_simps)
  then have "\<bar>y - x\<bar> = \<bar>of_int (round_ties_even (x / q)) - x / q\<bar> * q"
    using qpos by (simp add: abs_mult)
  also have "\<dots> \<le> 1 / 2 * q"
    using round_ties_even_near [of "x / q"] qpos by (intro mult_right_mono) simp_all
  finally show ?thesis by (simp add: q_def)
qed

lemma Math_round_int: "Math_round n = Fin r \<Longrightarrow> \<exists>k. r = of_int k"
  by (cases n) auto

lemma js_sub_100_int:
  assumes "\<bar>real_of_int k\<bar> < 2 ^ 53 - 100"
  shows "js_sub (Fin 100) (Fin (of_int k)) = Fin (of_int (100 - k))"
proof -
  have "\<bar>real_of_int (100 - k)\<bar> < 2 ^ 53"
    using assms by simp
  then have "\<bar>100 - k\<bar> < 2 ^ 53"
    by (metis of_int_abs of_int_less_iff of_int_numeral of_int_power)
  then have "double_of (of_int (100 - k)) = Fin (of_int (100 - k))"
    by (rule double_of_int)
  then show ?thesis by simp
qed

text \<open>The percentage of a number from 0 to 1: the double product with 100 lies between
  0 and 100, and \<open>Math_round\<close> takes the integer nearest to it, a tie going up.\<close>

lemma percent_unit_interval:
  assumes "0 \<le> p" and "p \<le> 1"
  shows "\<exists>k y. js_mul (Fin p) (Fin 100) = Fin y
           \<and> Math_round (js_mul (Fin p) (Fin 100)) = Fin (of_int k)
           \<and> of_int k \<le> y + 1 / 2 \<and> y + 1 / 2 < of_int k + 1 \<and> 0 \<le> k \<and> k \<le> 100"
proof -
  have "of_int 0 \<le> p * 100" and "p * 100 \<le> of_int 100"
    using assms by simp_all
  then obtain y where y: "double_of (p * 100) = Fin y" "0 \<le> y" "y \<le> 100"
    using double_of_between [of 0 "p * 100" 100] by auto
  define k where "k = \<lfloor>y + 1 / 2\<rfloor>"
  have "0 \<le> k" using y(2) by (simp add: k_def)
  moreover have "k \<le> 100"
  proof -
    have "y + 1 / 2 < of_int 101" using y(3) by simp
    then have "k < 101" unfolding k_def by (simp only: floor_less_iff)
    then show ?thesis by simp
  qed
  moreover have "of_int k \<le> y + 1 / 2" and "y + 1 / 2 < of_int k + 1"
    unfolding k_def by linarith+
  ultimately show ?thesis
    using y(1) by (auto simp: k_def)
qed

text \<open>The product is the double product: the double nearest to 0.155, times 100, is
  15.5 although the exact product lies below it, and the percentage is 16.\<close>

lemma percent_of_0155:
  "double_of (155 / 1000) = Fin (5584463537939415 / 36028797018963968)
   \<and> 5584463537939415 / 36028797018963968 * 100 < (31 / 2 :: real)
   \<and> js_mul (Fin (5584463537939415 / 36028797018963968)) (Fin 100) = Fin (31 / 2)
   \<and> Math_round (js_mul (Fin (5584463537939415 / 36028797018963968)) (Fin 100)) = Fin 16"
  by (simp add: double_eval)

lemma NumberToString_int:
  "\<bar>i\<bar> \<le> 2 ^ 53 \<Longrightarrow> NumberToString rt (Fin (of_int i)) = integer_string i"
proof -
  assume "\<bar>i\<bar> \<le> 2 ^ 53"
  then have "\<bar>(of_int i :: real)\<bar> \<le> 2 ^ 53"
    by (metis of_int_abs of_int_le_iff of_int_numeral of_int_power)
  then show ?thesis by simp
qed

lemma integer_string_0: "integer_string 0 = ''0''"
  by (simp add: integer_string_def decimal.simps digit_char_def)

section \<open>The bar chart\<close>

text \<open>
  C1. For every key of \<open>ranges\<close> and every number submitted for it, \<open>updateBarChart\<close>
  colours the bar of that key red exactly when the number is strictly outside the range
  of the key, and green when it lies within the range, the ends included; the bar shows
  the number itself.
\<close>

theorem updateBarChart_red_iff_outside:
  assumes "i < length ranges" and "ranges ! i = (key, lo, hi)"
    and "js_get values key = JNumber v"
  shows "(bar_backgroundColor (updateBarChart rt values s) ! i = ''#e63946''
            \<longleftrightarrow> strictly_outside v lo hi)
       \<and> (within_bounds v lo hi
            \<longrightarrow> bar_backgroundColor (updateBarChart rt values s) ! i = ''#29c37a'')
       \<and> bar_data (updateBarChart rt values s) ! i = JNumber v"
proof -
  have col: "bar_backgroundColor (updateBarChart rt values s) ! i =
               (if js_lt v (Fin lo) \<or> js_gt v (Fin hi) then ''#e63946'' else ''#29c37a'')"
    using bar_color_nth [OF assms(1,2)] assms(3) by simp
  have out: "(js_lt v (Fin lo) \<or> js_gt v (Fin hi)) = strictly_outside v lo hi"
    by (cases v) (simp_all add: js_gt_def)
  have inside: "within_bounds v lo hi \<Longrightarrow> \<not> strictly_outside v lo hi"
    by (cases v) auto
  have "keys ! i = key"
    using assms(1,2) by (simp add: keys_def)
  then have dat: "bar_data (updateBarChart rt values s) ! i = JNumber v"
    using assms(1,3) by (simp add: updateBarChart_def keys_def)
  show ?thesis
    using col out inside dat by simp
qed

theorem updateBarChart_red_iff_outside_witness:
  "(3::nat) < length ranges \<and> ranges ! 3 = (''vibration'', 0, 1)
   \<and> js_get example_values ''vibration'' = JNumber (Fin 2)
   \<and> bar_backgroundColor (updateBarChart digits_runtime example_values filled_page) ! 3 = ''#e63946''
   \<and> bar_data (updateBarChart digits_runtime example_values filled_page) ! 3 = JNumber (Fin 2)"
proof -
  have h1: "(3::nat) < length ranges" by (simp add: ranges_def)
  have h2: "ranges ! 3 = (''vibration'', 0, 1)" by (simp add: ranges_def)
  have h3: "js_get example_values ''vibration'' = JNumber (Fin 2)"
    by (simp add: js_get_def example_values_def)
  show ?thesis
    using h1 h2 h3
      updateBarChart_red_iff_outside [OF h1 h2 h3, of digits_runtime filled_page]
    by simp
qed

text \<open>
  C8. For every key of \<open>ranges\<close> whose submitted value is \<open>NaN\<close> (or converts to it),
  \<open>updateBarChart\<close> colours the bar green: both comparisons are false, although the
  value is not within the range.
\<close>

theorem updateBarChart_NaN_green:
  assumes "i < length ranges" and "ranges ! i = (key, lo, hi)"
    and "ToNumber rt (js_get values key) = NaN"
  shows "bar_backgroundColor (updateBarChart rt values s) ! i = ''#29c37a''
       \<and> \<not> within_bounds (ToNumber rt (js_get values key)) lo hi"
  using bar_color_nth [OF assms(1,2)] assms(3) by (simp add: js_gt_def)

theorem updateBarChart_NaN_green_witness:
  "(6::nat) < length ranges \<and> ranges ! 6 = (''co2'', 380, 450)
   \<and> ToNumber digits_runtime (js_get example_values ''co2'') = NaN
   \<and> bar_backgroundColor (updateBarChart digits_runtime example_values filled_page) ! 6 = ''#29c37a''"
proof -
  have h1: "(6::nat) < length ranges" by (simp add: ranges_def)
  have h2: "ranges ! 6 = (''co2'', 380, 450)" by (simp add: ranges_def)
  have h3: "ToNumber digits_runtime (js_get example_values ''co2'') = NaN"
    by (simp add: js_get_def example_values_def)
  show ?thesis
    using h1 h2 h3 updateBarChart_NaN_green [OF h1 h2 h3, of filled_page]
    by simp
qed

section \<open>Validation of the form\<close>

text \<open>
  C2. Whenever one of the eight fields is empty, \<open>onPredict\<close> emits its warning and
  nothing else, so no request is made to \<^verbatim>\<open>/predict\<close> or \<^verbatim>\<open>/logs\<close>, and every
  empty field, not only the first, carries the red border.
\<close>

theorem onPredict_empty_field_no_request:
  assumes "k \<in> set ids" and "input_value s k = []"
  shows "events (onPredict rt pr lr s) =
           events s @ [Alert (warning_sign @ '' Please fill all fields.'')]
       \<and> (\<forall>j\<in>set ids. input_value s j = []
            \<longrightarrow> input_border (onPredict rt pr lr s) j = ''2px solid red'')"
proof -
  have "\<not> all_filled s"
    using assms by (auto simp: all_filled_def list_all_iff)
  then have "events (onPredict rt pr lr s) =
               events s @ [Alert (warning_sign @ '' Please fill all fields.'')]"
    by (simp add: onPredict_invalid emit_def)
  moreover have "\<forall>j\<in>set ids. input_value s j = []
                   \<longrightarrow> input_border (onPredict rt pr lr s) j = ''2px solid red''"
    by (simp add: input_border_onPredict validated_border_def)
  ultimately show ?thesis by simp
qed

theorem onPredict_empty_field_no_request_witness:
  "''pressure'' \<in> set ids \<and> input_value gapped_page ''pressure'' = []
   \<and> events (onPredict digits_runtime (Resolved (example_data JUndefined (JNumber (Fin (42 / 100)))))
        (Resolved example_logs) gapped_page) =
       [Alert (warning_sign @ '' Please fill all fields.'')]
   \<and> input_border (onPredict digits_runtime (Resolved (example_data JUndefined (JNumber (Fin (42 / 100)))))
        (Resolved example_logs) gapped_page) ''pressure'' = ''2px solid red''
   \<and> input_border (onPredict digits_runtime (Resolved (example_data JUndefined (JNumber (Fin (42 / 100)))))
        (Resolved example_logs) gapped_page) ''humidity'' = ''2px solid red''"
proof -
  have h1: "''pressure'' \<in> set ids" by (simp add: ids_def)
  have h2: "input_value gapped_page ''pressure'' = []"
    by (simp add: gapped_page_def filled_page_def fields_def)
  have h3: "''humidity'' \<in> set ids" "input_value gapped_page ''humidity'' = []"
    by (simp_all add: ids_def gapped_page_def filled_page_def fields_def)
  have h4: "events gapped_page = []"
    by (simp add: gapped_page_def filled_page_def)
  show ?thesis
    using h1 h2 h3 h4
      onPredict_empty_field_no_request [OF h1 h2, of digits_runtime
        "Resolved (example_data JUndefined (JNumber (Fin (42 / 100))))"
        "Resolved example_logs"]
    by simp
qed

text \<open>
  C7. On every run of \<open>onPredict\<close>, whatever the borders were and however the run ends,
  each of the eight fields ends with the red border if it is empty and with the reset
  border otherwise: a field marked earlier and filled since is reset.
\<close>

theorem onPredict_border_reset_then_marked:
  "\<forall>j\<in>set ids. input_border (onPredict rt pr lr s) j =
     (if input_value s j = [] then ''2px solid red'' else ''1px solid #ccc'')"
  by (simp add: input_border_onPredict validated_border_def)

theorem onPredict_border_reset_then_marked_witness:
  "input_border filled_page ''temp'' = ''2px solid red''
   \<and> input_value filled_page ''temp'' = ''30''
   \<and> input_border (onPredict digits_runtime (Rejected ''TypeError: Failed to fetch'')
        (Resolved example_logs) filled_page) ''temp'' = ''1px solid #ccc''"
proof -
  have h1: "''temp'' \<in> set ids" by (simp add: ids_def)
  have h2: "input_border filled_page ''temp'' = ''2px solid red''"
    "input_value filled_page ''temp'' = ''30''"
    by (simp_all add: filled_page_def fields_def)
  show ?thesis
    using h1 h2
      onPredict_border_reset_then_marked [of digits_runtime
        "Rejected ''TypeError: Failed to fetch''" "Resolved example_logs" filled_page]
    by simp
qed

section \<open>The donut chart\<close>



text \<open>
  C9. For every response without a reported error whose probability is falsy (absent,
  \<open>null\<close>, \<open>false\<close>, the empty string, 0 or \<open>NaN\<close>), the percentage is 0: the donut
  is set to the slices 100 and 0 and the centre text to \<open>0%\<close>, and no \<open>NaN\<close> reaches
  the chart.
\<close>

theorem onPredict_falsy_probability_zero:
  assumes "all_filled s" and "\<not> truthy (data_error d)"
    and "\<not> truthy (data_probability d)"
  shows "probPercent_of rt d = Fin 0
       \<and> donut_data (onPredict rt (Resolved d) lr s) = [Fin 100, Fin 0]
       \<and> donutCenter (onPredict rt (Resolved d) lr s) =
           map_option (\<lambda>_. ''0%'') (donutCenter s)"
proof -
  have pp: "probPercent_of rt d = Fin 0"
    using assms(3) by (simp add: probPercent_of_def js_or_def double_of_def)
  have sub: "js_sub (Fin 100) (Fin 0) = Fin 100"
    by (simp add: double_of_numeral)
  have "NumberToString rt (Fin (of_int 0)) = integer_string 0"
    by (rule NumberToString_int) simp
  then have str: "NumberToString rt (probPercent_of rt d) = ''0''"
    using pp by (simp add: integer_string_0)
  show ?thesis
    using onPredict_success_donut [OF assms(1,2), of rt lr] pp str sub by simp
qed

theorem onPredict_falsy_probability_zero_witness:
  "all_filled filled_page \<and> \<not> truthy JUndefined \<and> \<not> truthy (JNumber NaN)
   \<and> donut_data (onPredict digits_runtime (Resolved (example_data JUndefined (JNumber NaN)))
        (Resolved example_logs) filled_page) = [Fin 100, Fin 0]
   \<and> donutCenter (onPredict digits_runtime (Resolved (example_data JUndefined (JNumber NaN)))
        (Resolved example_logs) filled_page) = Some ''0%''"
proof -
  have h1: "all_filled filled_page"
    by (simp add: all_filled_def filled_page_def ids_def fields_def)
  have h2: "\<not> truthy (data_error (example_data JUndefined (JNumber NaN)))"
    by (simp add: example_data_def)
  have h3: "\<not> truthy (data_probability (example_data JUndefined (JNumber NaN)))"
    by (simp add: example_data_def)
  have c: "donutCenter filled_page = Some ''0%''"
    by (simp add: filled_page_def)
  show ?thesis
    using h1 c
      onPredict_falsy_probability_zero [OF h1 h2 h3, of digits_runtime "Resolved example_logs"]
    by simp
qed


text \<open>
  C10, as the code has it. Loading sets the donut to the slices 100 and 0 and the centre
  text to \<open>0%\<close>. A run of \<open>onPredict\<close> either leaves the data of the donut as it was or
  writes the two slices 100 minus the percentage and the percentage. The data stays a
  pair of numbers with sum 100 whenever the percentage derived from the response is
  finite and below \<open>2 ^ 53 - 100\<close> in magnitude, so that its difference from 100 is
  computed exactly; that is so for every probability that is falsy or a number from 0 to
  1. When the percentage is an infinity or \<open>NaN\<close>, the two slices written do not have
  the sum 100.
\<close>

theorem donut_two_slices_sum_100:
  "donut_data (onLoad rt lr0 s0) = [Fin 100, Fin 0]
   \<and> donutCenter (onLoad rt lr0 s0) = map_option (\<lambda>_. ''0%'') (donutCenter s0)
   \<and> (donut_data (onPredict rt pr lr s) = donut_data s
       \<or> (\<exists>d. pr = Resolved d
             \<and> donut_data (onPredict rt pr lr s) =
                 [js_sub (Fin 100) (probPercent_of rt d), probPercent_of rt d]))
   \<and> (sums_to_100 (donut_data s)
         \<and> (\<forall>d. pr = Resolved d \<longrightarrow> small_percent (probPercent_of rt d))
       \<longrightarrow> sums_to_100 (donut_data (onPredict rt pr lr s)))
   \<and> (\<not> truthy (data_probability d')
         \<or> (\<exists>p. data_probability d' = JNumber (Fin p) \<and> 0 \<le> p \<and> p \<le> 1)
       \<longrightarrow> small_percent (probPercent_of rt d'))
   \<and> (all_filled s \<and> \<not> truthy (data_error d') \<and> \<not> is_Fin (probPercent_of rt d')
       \<longrightarrow> \<not> sums_to_100 (donut_data (onPredict rt (Resolved d') lr s)))"
proof -
  have init: "donut_data (onLoad rt lr0 s0) = [Fin 100, Fin 0]"
    by (simp add: onLoad_def loadLogsChart_keeps setDonutCenter_fields)
  have centre: "donutCenter (onLoad rt lr0 s0) = map_option (\<lambda>_. ''0%'') (donutCenter s0)"
    by (simp add: onLoad_def loadLogsChart_keeps setDonutCenter_fields)
  have shape: "donut_data (onPredict rt pr lr s) = donut_data s
       \<or> (\<exists>d. pr = Resolved d
             \<and> donut_data (onPredict rt pr lr s) =
                 [js_sub (Fin 100) (probPercent_of rt d), probPercent_of rt d])"
  proof (cases "all_filled s")
    case False
    then show ?thesis by (simp add: onPredict_invalid emit_def)
  next
    case filled: True
    show ?thesis
    proof (cases pr)
      case (Rejected err)
      with filled show ?thesis by (simp add: onPredict_rejected emit_def)
    next
      case (Resolved d)
      show ?thesis
      proof (cases "truthy (data_error d)")
        case True
        with filled Resolved show ?thesis by (simp add: onPredict_server_error emit_def)
      next
        case False
        with filled Resolved show ?thesis by (simp add: onPredict_success_donut)
      qed
    qed
  qed
  have exact: "sums_to_100 [js_sub (Fin 100) (probPercent_of rt d), probPercent_of rt d]"
    if sp: "small_percent (probPercent_of rt d)" for d
  proof -
    obtain r where r: "probPercent_of rt d = Fin r" "\<bar>r\<bar> < 2 ^ 53 - 100"
      using sp by (cases "probPercent_of rt d") auto
    then obtain k where k: "r = of_int k"
      using Math_round_int [of _ r] unfolding probPercent_of_def by blast
    have "js_sub (Fin 100) (Fin (of_int k)) = Fin (of_int (100 - k))"
      using r(2) unfolding k by (rule js_sub_100_int)
    then show ?thesis
      by (simp add: r(1) k)
  qed
  have keep: "sums_to_100 (donut_data (onPredict rt pr lr s))"
    if "sums_to_100 (donut_data s)"
      and "\<forall>d. pr = Resolved d \<longrightarrow> small_percent (probPercent_of rt d)"
    using shape that exact by auto
  have falsy: "small_percent (probPercent_of rt d')" if "\<not> truthy (data_probability d')"
    using that by (simp add: probPercent_of_def js_or_def double_of_def)
  have unit: "small_percent (probPercent_of rt d')"
    if pr: "data_probability d' = JNumber (Fin p)" and p0: "0 \<le> p" and p1: "p \<le> 1" for p
  proof -
    obtain k where k: "Math_round (js_mul (Fin p) (Fin 100)) = Fin (of_int k)"
        "0 \<le> k" "k \<le> 100"
      using percent_unit_interval [OF p0 p1] by blast
    have "ToNumber rt (js_or (data_probability d') (JNumber (Fin 0))) = Fin p"
      using pr by (simp add: js_or_def)
    then have "probPercent_of rt d' = Fin (of_int k)"
      using k(1) by (simp add: probPercent_of_def)
    then show ?thesis
      using k(2,3) by simp
  qed
  have inf: "\<not> sums_to_100 [js_sub (Fin 100) n, n]" if "\<not> is_Fin n" for n
    using that by (cases n) simp_all
  have bad: "\<not> sums_to_100 (donut_data (onPredict rt (Resolved d') lr s))"
    if "all_filled s" and "\<not> truthy (data_error d')" and "\<not> is_Fin (probPercent_of rt d')"
    using onPredict_success_donut(1) [OF that(1,2), of rt lr] inf [OF that(3)] by simp
  show ?thesis
    using init centre shape keep falsy unit bad by blast
qed

theorem donut_two_slices_sum_100_witness:
  "sums_to_100 (donut_data filled_page)
   \<and> small_percent (probPercent_of digits_runtime
        (example_data JUndefined (JNumber (double_of (42 / 100)))))
   \<and> sums_to_100 (donut_data (onPredict digits_runtime
        (Resolved (example_data JUndefined (JNumber (double_of (42 / 100)))))
        (Resolved example_logs) filled_page))
   \<and> donut_data (onLoad digits_runtime (Resolved example_logs) filled_page) = [Fin 100, Fin 0]"
proof -
  have h1: "sums_to_100 (donut_data filled_page)"
    by (simp add: filled_page_def)
  have h2: "small_percent (probPercent_of digits_runtime
              (example_data JUndefined (JNumber (double_of (42 / 100)))))"
    by (simp add: probPercent_of_def example_data_def js_or_def double_eval)
  show ?thesis
    using h1 h2
      donut_two_slices_sum_100 [of digits_runtime "Resolved example_logs" filled_page
        "Resolved (example_data JUndefined (JNumber (double_of (42 / 100))))"
        "Resolved example_logs" filled_page]
    by simp
qed

text \<open>
  The claim C10 as it is written fails: a response whose probability is the JSON number
  \<^verbatim>\<open>1e999\<close> is read as infinity, and the donut then holds minus infinity and infinity,
  which do not add up to 100.
\<close>

theorem donut_sum_infinite_counterexample:
  "donut_data (onPredict digits_runtime (Resolved (example_data JUndefined (JNumber PosInf)))
      (Resolved example_logs) filled_page) = [NegInf, PosInf]
   \<and> \<not> sums_to_100 (donut_data (onPredict digits_runtime
          (Resolved (example_data JUndefined (JNumber PosInf)))
          (Resolved example_logs) filled_page))"
proof -
  have h1: "all_filled filled_page"
    by (simp add: all_filled_def filled_page_def ids_def fields_def)
  have h2: "\<not> truthy (data_error (example_data JUndefined (JNumber PosInf)))"
    by (simp add: example_data_def)
  have "probPercent_of digits_runtime (example_data JUndefined (JNumber PosInf)) = PosInf"
    by (simp add: probPercent_of_def example_data_def js_or_def)
  then show ?thesis
    using onPredict_success_donut(1) [OF h1 h2, of digits_runtime "Resolved example_logs"]
    by simp
qed

section \<open>A reported error\<close>

text \<open>
  C4, as the code has it. For every response whose \<open>error\<close> field is truthy (a string
  that is not empty, for one), \<open>onPredict\<close> alerts the user with that error after the
  request and stops: the data of the donut, the bar chart and the line chart, the centre
  text and the two error texts are what they were before the submission, and the logs
  are not fetched.
\<close>

theorem onPredict_truthy_error_keeps_charts:
  assumes "all_filled s" and "truthy (data_error d)"
  shows "events (onPredict rt (Resolved d) lr s) =
           events s @ [Fetch_predict (payload_of rt s),
                       Alert (''Server Error: '' @ ToString rt (data_error d))]
       \<and> donut_data (onPredict rt (Resolved d) lr s) = donut_data s
       \<and> donutCenter (onPredict rt (Resolved d) lr s) = donutCenter s
       \<and> bar_labels (onPredict rt (Resolved d) lr s) = bar_labels s
       \<and> bar_data (onPredict rt (Resolved d) lr s) = bar_data s
       \<and> bar_backgroundColor (onPredict rt (Resolved d) lr s) = bar_backgroundColor s
       \<and> logs_labels (onPredict rt (Resolved d) lr s) = logs_labels s
       \<and> logs_data (onPredict rt (Resolved d) lr s) = logs_data s
       \<and> errCode (onPredict rt (Resolved d) lr s) = errCode s
       \<and> errDesc (onPredict rt (Resolved d) lr s) = errDesc s"
  using assms by (simp add: onPredict_server_error emit_def)

theorem onPredict_truthy_error_keeps_charts_witness:
  "all_filled filled_page \<and> truthy (JString ''model unavailable'')
   \<and> events (onPredict digits_runtime
        (Resolved (example_data (JString ''model unavailable'') (JNumber (Fin (42 / 100)))))
        (Resolved example_logs) filled_page) =
       [Fetch_predict (payload_of digits_runtime filled_page),
        Alert ''Server Error: model unavailable'']
   \<and> donut_data (onPredict digits_runtime
        (Resolved (example_data (JString ''model unavailable'') (JNumber (Fin (42 / 100)))))
        (Resolved example_logs) filled_page) = [Fin 100, Fin 0]
   \<and> logs_data (onPredict digits_runtime
        (Resolved (example_data (JString ''model unavailable'') (JNumber (Fin (42 / 100)))))
        (Resolved example_logs) filled_page) = [Fin 7]"
proof -
  have h1: "all_filled filled_page"
    by (simp add: all_filled_def filled_page_def ids_def fields_def)
  have h2: "truthy (data_error
              (example_data (JString ''model unavailable'') (JNumber (Fin (42 / 100)))))"
    by (simp add: example_data_def)
  have e: "data_error (example_data (JString ''model unavailable'') (JNumber (Fin (42 / 100)))) =
             JString ''model unavailable''"
    by (simp add: example_data_def)
  have p: "events filled_page = []" "donut_data filled_page = [Fin 100, Fin 0]"
    "logs_data filled_page = [Fin 7]"
    by (simp_all add: filled_page_def)
  show ?thesis
    using h1 e p
      onPredict_truthy_error_keeps_charts [OF h1 h2, of digits_runtime "Resolved example_logs"]
    by simp
qed

text \<open>
  The claim C4 as it is written fails: a response that holds an \<open>error\<close> field with the
  empty string passes the test \<^verbatim>\<open>if (data.error)\<close>, and the charts are updated.
\<close>

theorem onPredict_empty_error_counterexample:
  "data_error (example_data (JString []) (JNumber (Fin (1 / 2)))) = JString []
   \<and> donut_data filled_page = [Fin 100, Fin 0]
   \<and> donut_data (onPredict digits_runtime
        (Resolved (example_data (JString []) (JNumber (Fin (1 / 2)))))
        (Resolved example_logs) filled_page) = [Fin 50, Fin 50]"
proof -
  have h1: "all_filled filled_page"
    by (simp add: all_filled_def filled_page_def ids_def fields_def)
  have h2: "\<not> truthy (data_error (example_data (JString []) (JNumber (Fin (1 / 2)))))"
    by (simp add: example_data_def)
  have "probPercent_of digits_runtime (example_data (JString []) (JNumber (Fin (1 / 2)))) = Fin 50"
    by (simp add: probPercent_of_def example_data_def js_or_def double_of_numeral)
  then show ?thesis
    using onPredict_success_donut(1) [OF h1 h2, of digits_runtime "Resolved example_logs"]
    by (simp add: example_data_def filled_page_def double_of_numeral)
qed

section \<open>The line chart\<close>



text \<open>
  C6. When the request for the logs or the reading of its body fails, \<open>loadLogsChart\<close>
  makes its one request, writes the error to the console and does nothing else: no alert
  is raised, the request is not repeated, and the labels and data of the line chart, as
  all the rest of the page, stay as they were.
\<close>

theorem loadLogsChart_failure_console_only:
  "events (loadLogsChart rt (Rejected err) s) =
     events s @ [Fetch_logs, Console_log ''Log fetch error:'' err]
   \<and> filter is_Alert (events (loadLogsChart rt (Rejected err) s)) = filter is_Alert (events s)
   \<and> logs_labels (loadLogsChart rt (Rejected err) s) = logs_labels s
   \<and> logs_data (loadLogsChart rt (Rejected err) s) = logs_data s
   \<and> (loadLogsChart rt (Rejected err) s)\<lparr>events := events s\<rparr> = s"
  by (simp add: loadLogsChart_def emit_def)

theorem loadLogsChart_failure_console_only_witness:
  "events (loadLogsChart digits_runtime (Rejected ''TypeError: Failed to fetch'') filled_page) =
     [Fetch_logs, Console_log ''Log fetch error:'' ''TypeError: Failed to fetch'']
   \<and> logs_labels (loadLogsChart digits_runtime (Rejected ''TypeError: Failed to fetch'') filled_page) =
       [JString ''t0'']
   \<and> logs_data (loadLogsChart digits_runtime (Rejected ''TypeError: Failed to fetch'') filled_page) =
       [Fin 7]"
  using loadLogsChart_failure_console_only
    [of digits_runtime "''TypeError: Failed to fetch''" filled_page]
  by (simp add: filled_page_def)

end
